theory Spec2Isabelle
  imports Complex_Main
begin

section \<open>The OCR demo \<open>demo/csrc/cpp/text_ocr.cxx\<close>\<close>

text \<open>
  The program is one function, \<open>main\<close>, that calls an image library (OpenCV) and an
  inference SDK (mmdeploy). Neither library is part of the repository, so what a library
  function returns is a field of the environment record \<open>env\<close>, and every call the
  program makes that acts on the outside (the two output streams, the SDK, the drawing
  routine, the image file written) is logged, in program order and with its arguments, in
  the \<open>trace\<close> of the run. The SDK keeps state of its own between calls (devices, loaded
  models, caches, the profiler): it is the abstract \<open>world\<close>, which every SDK call may
  change and on which every inference result may depend.

  What the model leaves out:
  \<^item> \<open>cv::imread\<close> only reads; it is a function of the path and is not logged;
  \<^item> \<open>fprintf\<close> is logged with its stream, format string and arguments; the text that
    the C library makes of them is not computed;
  \<^item> the library calls are taken to return: a C++ exception that leaves \<open>main\<close> ends
    the process with neither of the two return values and is not modelled;
  \<^item> the loop counters are natural numbers: the \<open>int i\<close> of the output loop would
    overflow on a detection of \<open>2^31\<close> boxes or more;
  \<^item> the libraries do not write to the pixels of \<open>img\<close> behind the program's back:
    the image changes only where the program calls \<open>cv::polylines\<close>.
\<close>

subsection \<open>Data\<close>

text \<open>
  A C \<open>float\<close> or \<open>double\<close>: a finite value is \<open>m * 2^e\<close> for integers \<open>m\<close> and
  \<open>e\<close>; the other values are the two infinities and not-a-number.
\<close>

datatype cfloat = Finite int int | PosInf | NegInf | NaN

text \<open>
  The SDK's result structures, with the fields the program reads:
  \<open>mmdeploy_point_t {float x, y}\<close>, the \<open>bbox\<close> array of a text detection and
  the \<open>text\<close> of a text recognition.
\<close>

record point_t =
  pt_x :: cfloat
  pt_y :: cfloat

record text_detection =
  bbox :: "point_t list"

record text_recognition =
  rec_text :: string

text \<open>\<open>cv::Mat\<close>: the program only reads the \<open>data\<close> pointer, null when nothing was decoded.\<close>

record 'px mat =
  data :: "'px option"

datatype cv_point = CvPoint int int

datatype scalar = Scalar int int int

text \<open>
  The SDK's objects, named by what they were constructed from: \<open>Device(name, id)\<close>,
  \<open>Context(device)\<close>, \<open>Profiler(path)\<close>, \<open>Model(path)\<close>.
\<close>

datatype device = Device string int

datatype sdk_context = Context device

datatype profiler = Profiler string

datatype model = Model string

subsection \<open>Calls to the outside\<close>

datatype stream = Stdout | Stderr

datatype arg = ArgInt int | ArgStr string | ArgDouble cfloat

datatype sdk_ctor =
    NewContext sdk_context
  | NewProfiler profiler
  | ContextAdd sdk_context profiler
  | NewTextDetector model sdk_context
  | NewTextRecognizer model sdk_context

datatype 'px event =
    Fprintf stream string "arg list"
  | Sdk sdk_ctor
  | DetectorApply "'px mat" "text_detection list"
  | RecognizerApply "'px mat" "text_detection list" "text_recognition list"
  | Polylines "'px mat" "cv_point list" bool scalar
  | Imwrite string "'px mat"

record ('w, 'px) env =
  imread :: "string \<Rightarrow> 'px mat"
  sdk_new :: "sdk_ctor \<Rightarrow> 'w \<Rightarrow> 'w"
  det_apply :: "'px mat \<Rightarrow> 'w \<Rightarrow> text_detection list \<times> 'w"
  rec_apply :: "'px mat \<Rightarrow> text_detection list \<Rightarrow> 'w \<Rightarrow> text_recognition list \<times> 'w"
  polylines :: "'px mat \<Rightarrow> cv_point list \<Rightarrow> bool \<Rightarrow> scalar \<Rightarrow> 'px mat"
  cast_unrepresentable :: "cfloat \<Rightarrow> int"

record ('w, 'px) state =
  world :: 'w
  trace :: "'px event list"

datatype fault = IndexOutOfBounds

abbreviation LF :: char where
  "LF \<equiv> CHR 0x0A"

definition emit :: "'px event \<Rightarrow> ('w, 'px) state \<Rightarrow> ('w, 'px) state" where
  "emit e s = s\<lparr>trace := trace s @ [e]\<rparr>"

definition sdk :: "('w, 'px) env \<Rightarrow> sdk_ctor \<Rightarrow> ('w, 'px) state \<Rightarrow> ('w, 'px) state" where
  "sdk env c s = emit (Sdk c) (s\<lparr>world := sdk_new env c (world s)\<rparr>)"

definition detector_Apply ::
  "('w, 'px) env \<Rightarrow> 'px mat \<Rightarrow> ('w, 'px) state \<Rightarrow> text_detection list \<times> ('w, 'px) state" where
  "detector_Apply env img s =
     (let (bboxes, w) = det_apply env img (world s)
      in (bboxes, emit (DetectorApply img bboxes) (s\<lparr>world := w\<rparr>)))"

definition recognizer_Apply ::
  "('w, 'px) env \<Rightarrow> 'px mat \<Rightarrow> text_detection list \<Rightarrow> ('w, 'px) state
     \<Rightarrow> text_recognition list \<times> ('w, 'px) state" where
  "recognizer_Apply env img bboxes s =
     (let (texts, w) = rec_apply env img bboxes (world s)
      in (texts, emit (RecognizerApply img bboxes texts) (s\<lparr>world := w\<rparr>)))"

text \<open>\<open>Span{first, n}\<close> over a vector: the \<open>n\<close> elements from position \<open>first\<close> on.\<close>

definition Span :: "'a list \<Rightarrow> nat \<Rightarrow> nat \<Rightarrow> 'a list" where
  "Span xs first n = take n (drop first xs)"

subsection \<open>The conversion \<open>(int)pt.x\<close>\<close>

text \<open>
  A floating value converted to \<open>int\<close> loses its fractional part. C++ defines the result
  only when the integral part fits in the 32-bit \<open>int\<close>; what the platform gives
  otherwise (and for the infinities and NaN) is the environment's
  \<open>cast_unrepresentable\<close>.
\<close>

definition integral_part :: "int \<Rightarrow> int \<Rightarrow> int" where
  "integral_part m e =
     (if 0 \<le> e then m * 2 ^ nat e else sgn m * (\<bar>m\<bar> div 2 ^ nat (- e)))"

fun int_cast :: "('w, 'px) env \<Rightarrow> cfloat \<Rightarrow> int" where
  "int_cast env (Finite m e) =
     (let t = integral_part m e
      in if - (2 ^ 31) \<le> t \<and> t < 2 ^ 31 then t else cast_unrepresentable env (Finite m e))"
| "int_cast env f = cast_unrepresentable env f"

subsection \<open>\<open>main\<close>\<close>

text \<open>Lines 33 to 36: \<open>for (int i = 0; i < 20; ++i)\<close>.\<close>

function warmup_loop ::
  "('w, 'px) env \<Rightarrow> 'px mat \<Rightarrow> nat \<Rightarrow> ('w, 'px) state \<Rightarrow> ('w, 'px) state" where
  "warmup_loop env img i s =
     (if i < 20 then
        (let (bboxes, s1) = detector_Apply env img s;
             (texts, s2) = recognizer_Apply env img (Span bboxes 0 (length bboxes)) s1
         in warmup_loop env img (i + 1) s2)
      else s)"
  by pat_completeness auto
termination
  by (relation "measure (\<lambda>(env, img, i, s). 20 - i)") auto

text \<open>Lines 44 to 47: \<open>for (const auto& pt : bboxes[i].bbox)\<close>.\<close>

fun points_loop ::
  "('w, 'px) env \<Rightarrow> point_t list \<Rightarrow> cv_point list \<Rightarrow> ('w, 'px) state
     \<Rightarrow> cv_point list \<times> ('w, 'px) state" where
  "points_loop env [] poly_points s = (poly_points, s)"
| "points_loop env (pt # pts) poly_points s =
     (let s1 = emit (Fprintf Stdout ''x: %.2f, y: %.2f, ''
                       [ArgDouble (pt_x pt), ArgDouble (pt_y pt)]) s
      in points_loop env pts
           (poly_points @ [CvPoint (int_cast env (pt_x pt)) (int_cast env (pt_y pt))]) s1)"

text \<open>
  Lines 41 to 50: \<open>for (int i = 0; i < bboxes.size(); ++i)\<close>. \<open>texts[i]\<close> is an
  unchecked read: past the end of \<open>texts\<close> the run has no defined continuation and the
  model stops with the fault \<open>IndexOutOfBounds\<close>.
\<close>

function output_loop ::
  "('w, 'px) env \<Rightarrow> text_detection list \<Rightarrow> text_recognition list \<Rightarrow> nat \<Rightarrow> 'px mat
     \<Rightarrow> ('w, 'px) state \<Rightarrow> (fault + unit) \<times> 'px mat \<times> ('w, 'px) state" where
  "output_loop env bboxes texts i img s =
     (if i < length bboxes then
        (if i < length texts then
           (let s1 = emit (Fprintf Stdout (''box[%d]: %s'' @ [LF])
                             [ArgInt (int i), ArgStr (rec_text (texts ! i))]) s;
                (poly_points, s2) = points_loop env (bbox (bboxes ! i)) [] s1;
                s3 = emit (Fprintf Stdout [LF] []) s2;
                s4 = emit (Polylines img poly_points True (Scalar 0 255 0)) s3;
                img' = polylines env img poly_points True (Scalar 0 255 0)
            in output_loop env bboxes texts (i + 1) img' s4)
         else (Inl IndexOutOfBounds, img, s))
      else (Inr (), img, s))"
  by pat_completeness auto
termination
  by (relation "measure (\<lambda>(env, bboxes, texts, i, img, s). length bboxes - i)") auto

text \<open>
  Lines 9 to 55. \<open>argc\<close> is the length of \<open>argv\<close>; the result is \<open>Inr\<close> the value
  returned, or \<open>Inl\<close> the fault the run stopped with.
\<close>

definition main ::
  "('w, 'px) env \<Rightarrow> string list \<Rightarrow> 'w \<Rightarrow> (fault + int) \<times> ('w, 'px) state" where
  "main env argv w0 =
     (let s0 = \<lparr>world = w0, trace = []\<rparr>
      in if length argv \<noteq> 5 then
           (Inr 1,
            emit (Fprintf Stderr
                    (''usage:'' @ [LF]
                       @ ''  ocr device_name det_model_path reg_model_path image_path'' @ [LF])
                    []) s0)
         else
           (let device_name = argv ! 1;
                det_model_path = argv ! 2;
                reg_model_path = argv ! 3;
                image_path = argv ! 4;
                img = imread env image_path
            in if data img = None then
                 (Inr 1,
                  emit (Fprintf Stderr (''failed to load image: %s'' @ [LF])
                          [ArgStr image_path]) s0)
               else
                 (let context = Context (Device device_name 0);
                      s1 = sdk env (NewContext context) s0;
                      profiler = Profiler ''/deploee-tmp/profile.bin'';
                      s2 = sdk env (NewProfiler profiler) s1;
                      s3 = sdk env (ContextAdd context profiler) s2;
                      s4 = sdk env (NewTextDetector (Model det_model_path) context) s3;
                      s5 = sdk env (NewTextRecognizer (Model reg_model_path) context) s4;
                      s6 = warmup_loop env img 0 s5;
                      (bboxes, s7) = detector_Apply env img s6;
                      (texts, s8) =
                        recognizer_Apply env img (Span bboxes 0 (length bboxes)) s7;
                      (r, img', s9) = output_loop env bboxes texts 0 img s8
                  in case r of
                       Inl f \<Rightarrow> (Inl f, s9)
                     | Inr u \<Rightarrow> (Inr 0, emit (Imwrite ''output_ocr.png'' img') s9))))"

declare warmup_loop.simps [simp del] output_loop.simps [simp del]

subsection \<open>Vocabulary of the theorems\<close>

text \<open>
  The definitions of this subsection are not part of the program: they say, in terms of
  the environment alone, what the theorems below prove the program to do.

  One round of inference, as the claims describe it: the detector on the image, then the
  recognizer on the same image and on all the boxes the detector returned. \<open>infer_round\<close>
  gives the boxes, the texts and the SDK's state after the round, \<open>round_events\<close> the
  two events of the round, \<open>rounds_world\<close> and \<open>rounds_events\<close> the state after
  and the events of \<open>n\<close> rounds in a row.
\<close>

definition infer_round ::
  "('w, 'px) env \<Rightarrow> 'px mat \<Rightarrow> 'w \<Rightarrow> text_detection list \<times> text_recognition list \<times> 'w" where
  "infer_round env img w =
     (let (bboxes, w1) = det_apply env img w;
          (texts, w2) = rec_apply env img bboxes w1
      in (bboxes, texts, w2))"

definition round_events :: "('w, 'px) env \<Rightarrow> 'px mat \<Rightarrow> 'w \<Rightarrow> 'px event list" where
  "round_events env img w =
     (case infer_round env img w of
        (bboxes, texts, w2) \<Rightarrow> [DetectorApply img bboxes, RecognizerApply img bboxes texts])"

fun rounds_world :: "('w, 'px) env \<Rightarrow> 'px mat \<Rightarrow> nat \<Rightarrow> 'w \<Rightarrow> 'w" where
  "rounds_world env img 0 w = w"
| "rounds_world env img (Suc n) w = rounds_world env img n (snd (snd (infer_round env img w)))"

fun rounds_events :: "('w, 'px) env \<Rightarrow> 'px mat \<Rightarrow> nat \<Rightarrow> 'w \<Rightarrow> 'px event list" where
  "rounds_events env img 0 w = []"
| "rounds_events env img (Suc n) w =
     round_events env img w @ rounds_events env img n (snd (snd (infer_round env img w)))"

text \<open>
  The output for one box and for a list of boxes with their texts: the polygon through the
  converted vertices of a box, the image with that polygon drawn, the events of one
  iteration of the output loop on box \<open>i\<close>, and the events of the iterations on paired
  boxes and texts, each drawing on the image the one before left.
\<close>

definition poly_of :: "('w, 'px) env \<Rightarrow> text_detection \<Rightarrow> cv_point list" where
  "poly_of env b = map (\<lambda>pt. CvPoint (int_cast env (pt_x pt)) (int_cast env (pt_y pt))) (bbox b)"

definition draw :: "('w, 'px) env \<Rightarrow> 'px mat \<Rightarrow> text_detection \<Rightarrow> 'px mat" where
  "draw env img b = polylines env img (poly_of env b) True (Scalar 0 255 0)"

definition coord_event :: "point_t \<Rightarrow> 'px event" where
  "coord_event pt = Fprintf Stdout ''x: %.2f, y: %.2f, '' [ArgDouble (pt_x pt), ArgDouble (pt_y pt)]"

definition box_events ::
  "('w, 'px) env \<Rightarrow> 'px mat \<Rightarrow> nat \<Rightarrow> text_detection \<Rightarrow> text_recognition \<Rightarrow> 'px event list" where
  "box_events env img i b t =
     Fprintf Stdout (''box[%d]: %s'' @ [LF]) [ArgInt (int i), ArgStr (rec_text t)]
       # map coord_event (bbox b)
       @ [Fprintf Stdout [LF] [], Polylines img (poly_of env b) True (Scalar 0 255 0)]"

fun out_events ::
  "('w, 'px) env \<Rightarrow> 'px mat \<Rightarrow> nat \<Rightarrow> text_detection list \<Rightarrow> text_recognition list
     \<Rightarrow> 'px event list" where
  "out_events env img i (b # bs) (t # ts) =
     box_events env img i b t @ out_events env (draw env img b) (Suc i) bs ts"
| "out_events env img i bs ts = []"

text \<open>
  The five SDK calls before the warm-up loop, the SDK's state after them and after the
  20 rounds of the loop.
\<close>

definition setup_calls :: "string list \<Rightarrow> sdk_ctor list" where
  "setup_calls argv =
     [NewContext (Context (Device (argv ! 1) 0)),
      NewProfiler (Profiler ''/deploee-tmp/profile.bin''),
      ContextAdd (Context (Device (argv ! 1) 0)) (Profiler ''/deploee-tmp/profile.bin''),
      NewTextDetector (Model (argv ! 2)) (Context (Device (argv ! 1) 0)),
      NewTextRecognizer (Model (argv ! 3)) (Context (Device (argv ! 1) 0))]"

definition setup_world :: "('w, 'px) env \<Rightarrow> string list \<Rightarrow> 'w \<Rightarrow> 'w" where
  "setup_world env argv w = foldl (\<lambda>w c. sdk_new env c w) w (setup_calls argv)"

definition world_after_warmup :: "('w, 'px) env \<Rightarrow> string list \<Rightarrow> 'w \<Rightarrow> 'w" where
  "world_after_warmup env argv w =
     rounds_world env (imread env (argv ! 4)) 20 (setup_world env argv w)"

text \<open>The detections and the texts of the round that follows the warm-up loop.\<close>

definition final_results ::
  "('w, 'px) env \<Rightarrow> string list \<Rightarrow> 'w \<Rightarrow> text_detection list \<times> text_recognition list" where
  "final_results env argv w =
     (case infer_round env (imread env (argv ! 4)) (world_after_warmup env argv w) of
        (bboxes, texts, w') \<Rightarrow> (bboxes, texts))"

text \<open>Kinds of events.\<close>

fun is_inference :: "'px event \<Rightarrow> bool" where
  "is_inference (DetectorApply img bboxes) = True"
| "is_inference (RecognizerApply img bboxes texts) = True"
| "is_inference e = False"

fun is_sdk :: "'px event \<Rightarrow> bool" where
  "is_sdk (Sdk c) = True"
| "is_sdk e = False"

fun is_stdout :: "'px event \<Rightarrow> bool" where
  "is_stdout (Fprintf Stdout fmt args) = True"
| "is_stdout e = False"

fun is_polylines :: "'px event \<Rightarrow> bool" where
  "is_polylines (Polylines img pts is_closed colour) = True"
| "is_polylines e = False"

fun is_imwrite :: "'px event \<Rightarrow> bool" where
  "is_imwrite (Imwrite path img) = True"
| "is_imwrite e = False"

fun is_output :: "'px event \<Rightarrow> bool" where
  "is_output (Fprintf f fmt args) = True"
| "is_output (Polylines img pts is_closed colour) = True"
| "is_output (Imwrite path img) = True"
| "is_output e = False"

text \<open>
  The value of a floating number as a real, and the two ways of making an integer of a
  real that claim C10 contrasts: dropping the fraction, and rounding to the nearest.
\<close>

fun finite_value :: "cfloat \<Rightarrow> real option" where
  "finite_value (Finite m e) =
     Some (if 0 \<le> e then of_int m * 2 ^ nat e else of_int m / 2 ^ nat (- e))"
| "finite_value f = None"

definition truncate_toward_zero :: "real \<Rightarrow> int" where
  "truncate_toward_zero r = (if 0 \<le> r then \<lfloor>r\<rfloor> else \<lceil>r\<rceil>)"

definition round_to_nearest :: "real \<Rightarrow> int" where
  "round_to_nearest r = \<lfloor>r + 1 / 2\<rfloor>"

text \<open>A floating number whose truncated value a 32-bit \<open>int\<close> holds.\<close>

definition int_representable :: "cfloat \<Rightarrow> bool" where
  "int_representable f =
     (case finite_value f of
        None \<Rightarrow> False
      | Some r \<Rightarrow> - (2 ^ 31) \<le> truncate_toward_zero r \<and> truncate_toward_zero r < 2 ^ 31)"

subsection \<open>A concrete environment\<close>

text \<open>
  A small environment on which the theorems are instantiated. The SDK's state is a
  counter of the calls made. The detector returns the list \<open>warm\<close> in the warm-up
  rounds and two boxes from the 46th call on; the recognizer reads at most \<open>k\<close> texts.
\<close>

definition demo_box :: "int \<Rightarrow> text_detection" where
  "demo_box k =
     \<lparr>bbox = [\<lparr>pt_x = Finite (11 + 4 * k) (- 2), pt_y = Finite (- 11) (- 2)\<rparr>,
              \<lparr>pt_x = Finite 3 1, pt_y = Finite 5 0\<rparr>]\<rparr>"

definition demo_env :: "text_detection list \<Rightarrow> nat \<Rightarrow> (nat, nat) env" where
  "demo_env warm k =
     \<lparr>imread = (\<lambda>path. \<lparr>data = (if path = ''in.png'' then Some 7 else None)\<rparr>),
      sdk_new = (\<lambda>c w. w + 1),
      det_apply = (\<lambda>img w. (if w < 45 then warm else [demo_box 1, demo_box 2], w + 1)),
      rec_apply = (\<lambda>img bboxes w.
        (map (\<lambda>t. \<lparr>rec_text = t\<rparr>) (take (min k (length bboxes)) [''one'', ''two'', ''three'']),
         w + 1)),
      polylines = (\<lambda>img pts is_closed colour.
        \<lparr>data = map_option (\<lambda>n. n + length pts) (data img)\<rparr>),
      cast_unrepresentable = (\<lambda>f. - (2 ^ 31))\<rparr>"

definition demo_argv :: "string list" where
  "demo_argv = [''ocr'', ''cpu'', ''det'', ''reg'', ''in.png'']"

section \<open>Runs of the loops and of \<open>main\<close>\<close>

text \<open>
  Each loop is unfolded once and for all: \<open>warmup_loop\<close> makes the rounds that are
  left, \<open>points_loop\<close> converts and prints the vertices in order, \<open>output_loop\<close>
  handles the boxes that have a text and stops at the first that has none. \<open>main_run\<close>
  puts them together for a run that passes the two guards.
\<close>

lemma span_all: "Span xs 0 (length xs) = xs"
  by (simp add: Span_def)

lemma warmup_loop_run:
  "i \<le> 20 \<Longrightarrow>
   warmup_loop env img i s =
     s\<lparr>world := rounds_world env img (20 - i) (world s),
       trace := trace s @ rounds_events env img (20 - i) (world s)\<rparr>"
proof (induction env img i s rule: warmup_loop.induct)
  case (1 env img i s)
  show ?case
  proof (cases "i < 20")
    case False
    with "1.prems" have "i = 20" by simp
    then show ?thesis by (simp add: warmup_loop.simps)
  next
    case True
    obtain bboxes w1 where d: "det_apply env img (world s) = (bboxes, w1)"
      by (cases "det_apply env img (world s)")
    obtain texts w2 where r: "rec_apply env img bboxes w1 = (texts, w2)"
      by (cases "rec_apply env img bboxes w1")
    define s1 where "s1 = emit (DetectorApply img bboxes) (s\<lparr>world := w1\<rparr>)"
    define s2 where "s2 = emit (RecognizerApply img bboxes texts) (s1\<lparr>world := w2\<rparr>)"
    have da: "detector_Apply env img s = (bboxes, s1)"
      by (simp add: detector_Apply_def d s1_def)
    have ra: "recognizer_Apply env img (Span bboxes 0 (length bboxes)) s1 = (texts, s2)"
      by (simp add: recognizer_Apply_def span_all r s1_def s2_def emit_def)
    have ih: "warmup_loop env img (i + 1) s2 =
        s2\<lparr>world := rounds_world env img (20 - (i + 1)) (world s2),
          trace := trace s2 @ rounds_events env img (20 - (i + 1)) (world s2)\<rparr>"
      using True by (intro "1.IH"[OF True da[symmetric] refl ra[symmetric] refl]) simp
    have suc: "20 - i = Suc (20 - (i + 1))" using True by simp
    have ir: "infer_round env img (world s) = (bboxes, texts, w2)"
      by (simp add: infer_round_def d r)
    have "warmup_loop env img i s = warmup_loop env img (i + 1) s2"
      using True by (subst warmup_loop.simps) (simp add: da ra)
    also note ih
    finally show ?thesis
      by (simp add: suc ir round_events_def s2_def s1_def emit_def)
  qed
qed

lemma points_loop_run:
  "points_loop env pts poly s =
     (poly @ map (\<lambda>pt. CvPoint (int_cast env (pt_x pt)) (int_cast env (pt_y pt))) pts,
      s\<lparr>trace := trace s @ map coord_event pts\<rparr>)"
  by (induction pts arbitrary: poly s) (simp_all add: emit_def coord_event_def)

lemma output_loop_run:
  "i \<le> length bboxes \<Longrightarrow> i \<le> length texts \<Longrightarrow>
   output_loop env bboxes texts i img s =
     (if length bboxes \<le> length texts then Inr () else Inl IndexOutOfBounds,
      foldl (draw env) img (take (length texts - i) (drop i bboxes)),
      s\<lparr>trace := trace s @ out_events env img i (drop i bboxes) (drop i texts)\<rparr>)"
proof (induction env bboxes texts i img s rule: output_loop.induct)
  case (1 env bboxes texts i img s)
  show ?case
  proof (cases "i < length bboxes")
    case False
    with "1.prems" have "i = length bboxes" by simp
    with "1.prems" show ?thesis by (simp add: output_loop.simps)
  next
    case ib: True
    show ?thesis
    proof (cases "i < length texts")
      case False
      with "1.prems" have "i = length texts" by simp
      with ib show ?thesis by (simp add: output_loop.simps)
    next
      case it: True
      define s1 where "s1 = emit (Fprintf Stdout (''box[%d]: %s'' @ [LF])
                             [ArgInt (int i), ArgStr (rec_text (texts ! i))]) s"
      define poly where "poly = poly_of env (bboxes ! i)"
      define s2 where "s2 = s1\<lparr>trace := trace s1 @ map coord_event (bbox (bboxes ! i))\<rparr>"
      define s3 where "s3 = emit (Fprintf Stdout [LF] []) s2"
      define s4 where "s4 = emit (Polylines img poly True (Scalar 0 255 0)) s3"
      define img' where "img' = polylines env img poly True (Scalar 0 255 0)"
      have pl: "points_loop env (bbox (bboxes ! i)) [] s1 = (poly, s2)"
        by (simp add: points_loop_run poly_def poly_of_def s2_def)
      have step: "output_loop env bboxes texts i img s = output_loop env bboxes texts (i + 1) img' s4"
        using ib it
        by (subst output_loop.simps)
           (simp add: points_loop_run s1_def s2_def s3_def s4_def img'_def poly_def poly_of_def
              emit_def)
      have ih: "output_loop env bboxes texts (i + 1) img' s4 =
          (if length bboxes \<le> length texts then Inr () else Inl IndexOutOfBounds,
           foldl (draw env) img' (take (length texts - (i + 1)) (drop (i + 1) bboxes)),
           s4\<lparr>trace := trace s4 @ out_events env img' (i + 1) (drop (i + 1) bboxes) (drop (i + 1) texts)\<rparr>)"
        using ib it
        by (intro "1.IH"[OF ib it s1_def pl[symmetric] refl s3_def s4_def img'_def]) simp_all
      have db: "drop i bboxes = bboxes ! i # drop (i + 1) bboxes"
        using ib by (simp add: Cons_nth_drop_Suc)
      have dt: "drop i texts = texts ! i # drop (i + 1) texts"
        using it by (simp add: Cons_nth_drop_Suc)
      have tk: "length texts - i = Suc (length texts - (i + 1))"
        using it by simp
      have im: "img' = draw env img (bboxes ! i)"
        by (simp add: img'_def draw_def poly_def)
      show ?thesis
        unfolding step ih db dt tk
        by (simp add: im box_events_def s4_def s3_def s2_def s1_def emit_def poly_def)
    qed
  qed
qed

lemma main_run:
  fixes env :: "('w, 'px) env"
  assumes argc: "length argv = 5"
    and img: "data (imread env (argv ! 4)) \<noteq> None"
    and det: "det_apply env (imread env (argv ! 4)) (world_after_warmup env argv w) = (bboxes, w1)"
    and rec: "rec_apply env (imread env (argv ! 4)) bboxes w1 = (texts, w2)"
  shows "main env argv w =
     (if length bboxes \<le> length texts then Inr 0 else Inl IndexOutOfBounds,
      \<lparr>world = w2,
       trace = map Sdk (setup_calls argv)
         @ rounds_events env (imread env (argv ! 4)) 20 (setup_world env argv w)
         @ [DetectorApply (imread env (argv ! 4)) bboxes,
            RecognizerApply (imread env (argv ! 4)) bboxes texts]
         @ out_events env (imread env (argv ! 4)) 0 bboxes texts
         @ (if length bboxes \<le> length texts
            then [Imwrite ''output_ocr.png'' (foldl (draw env) (imread env (argv ! 4)) bboxes)]
            else [])\<rparr>)"
proof -
  define img where "img = imread env (argv ! 4)"
  obtain px where px: "data img = Some px"
    using img by (auto simp: img_def)
  define s5 :: "('w, 'px) state" where
    "s5 = \<lparr>world = setup_world env argv w, trace = map Sdk (setup_calls argv)\<rparr>"
  define s6 where "s6 = warmup_loop env img 0 s5"
  have s6: "s6 = \<lparr>world = world_after_warmup env argv w,
                  trace = map Sdk (setup_calls argv)
                    @ rounds_events env img 20 (setup_world env argv w)\<rparr>"
    by (simp add: s6_def warmup_loop_run s5_def world_after_warmup_def img_def)
  define s7 where "s7 = emit (DetectorApply img bboxes) (s6\<lparr>world := w1\<rparr>)"
  define s8 where "s8 = emit (RecognizerApply img bboxes texts) (s7\<lparr>world := w2\<rparr>)"
  have d: "detector_Apply env img s6 = (bboxes, s7)"
    using det by (simp add: detector_Apply_def s6 s7_def img_def)
  have r: "recognizer_Apply env img (Span bboxes 0 (length bboxes)) s7 = (texts, s8)"
    using rec by (simp add: recognizer_Apply_def span_all s7_def s8_def emit_def img_def)
  have out: "output_loop env bboxes texts 0 img s8 =
     (if length bboxes \<le> length texts then Inr () else Inl IndexOutOfBounds,
      foldl (draw env) img (take (length texts) bboxes),
      s8\<lparr>trace := trace s8 @ out_events env img 0 bboxes texts\<rparr>)"
    using output_loop_run[of 0 bboxes texts env img s8] by simp
  have m: "main env argv w =
      (case output_loop env bboxes texts 0 img s8 of
         (r, img', s9) \<Rightarrow>
           (case r of Inl f \<Rightarrow> (Inl f, s9)
            | Inr u \<Rightarrow> (Inr 0, emit (Imwrite ''output_ocr.png'' img') s9)))"
    using argc px
    by (simp add: main_def Let_def img_def[symmetric] sdk_def emit_def
        setup_world_def setup_calls_def s5_def[unfolded setup_world_def setup_calls_def, simplified, symmetric]
        s6_def[symmetric] d r)
  show ?thesis
    unfolding m out by (simp add: s8_def s7_def s6 emit_def img_def)
qed

subsection \<open>Events by kind\<close>

lemma final_resultsD:
  assumes "final_results env argv w = (bboxes, texts)"
  obtains w1 w2 where
    "det_apply env (imread env (argv ! 4)) (world_after_warmup env argv w) = (bboxes, w1)"
    "rec_apply env (imread env (argv ! 4)) bboxes w1 = (texts, w2)"
  using assms
  by (auto simp: final_results_def infer_round_def Let_def split: prod.splits)

lemma rounds_events_inference: "e \<in> set (rounds_events env img n w) \<Longrightarrow> is_inference e"
  by (induction n arbitrary: w) (auto simp: round_events_def split: prod.splits)

lemma inference_only:
  assumes "is_inference e"
  shows "\<not> is_output e" "\<not> is_sdk e" "\<not> is_stdout e" "\<not> is_polylines e" "\<not> is_imwrite e"
  using assms by (cases e; simp)+

lemma filter_rounds_events [simp]:
  "filter is_inference (rounds_events env img n w) = rounds_events env img n w"
  "filter is_output (rounds_events env img n w) = []"
  "filter is_sdk (rounds_events env img n w) = []"
  "filter is_stdout (rounds_events env img n w) = []"
  "filter is_polylines (rounds_events env img n w) = []"
  "filter is_imwrite (rounds_events env img n w) = []"
  using rounds_events_inference [of _ env img n w]
  by (auto simp: filter_id_conv filter_empty_conv dest: inference_only)

lemma length_rounds_events [simp]: "length (rounds_events env img n w) = 2 * n"
  by (induction n arbitrary: w) (simp_all add: round_events_def split: prod.splits)

lemma rounds_events_snoc:
  "rounds_events env img (Suc n) w =
     rounds_events env img n w @ round_events env img (rounds_world env img n w)"
  by (induction n arbitrary: w) simp_all

lemma filter_coord_events [simp]:
  "filter is_inference (map coord_event pts) = []"
  "filter is_sdk (map coord_event pts) = []"
  "filter is_imwrite (map coord_event pts) = []"
  "filter is_polylines (map coord_event pts) = []"
  "filter is_output (map coord_event pts) = map coord_event pts"
  "filter is_stdout (map coord_event pts) = map coord_event pts"
  by (simp_all add: filter_empty_conv filter_id_conv coord_event_def)

lemma filter_box_events [simp]:
  "filter is_inference (box_events env img i b t) = []"
  "filter is_sdk (box_events env img i b t) = []"
  "filter is_output (box_events env img i b t) = box_events env img i b t"
  "filter is_imwrite (box_events env img i b t) = []"
  "filter is_polylines (box_events env img i b t) =
     [Polylines img (poly_of env b) True (Scalar 0 255 0)]"
  "filter is_stdout (box_events env img i b t) =
     Fprintf Stdout (''box[%d]: %s'' @ [LF]) [ArgInt (int i), ArgStr (rec_text t)]
       # map coord_event (bbox b) @ [Fprintf Stdout [LF] []]"
  by (simp_all add: box_events_def)

lemma filter_out_events_inference [simp]:
  "filter is_inference (out_events env img i bs ts) = []"
  by (induction env img i bs ts rule: out_events.induct) simp_all

lemma filter_out_events_sdk [simp]:
  "filter is_sdk (out_events env img i bs ts) = []"
  by (induction env img i bs ts rule: out_events.induct) simp_all

lemma filter_out_events_output [simp]:
  "filter is_output (out_events env img i bs ts) = out_events env img i bs ts"
  by (induction env img i bs ts rule: out_events.induct) simp_all

lemma filter_out_events_imwrite [simp]:
  "filter is_imwrite (out_events env img i bs ts) = []"
  by (induction env img i bs ts rule: out_events.induct) simp_all

lemma filter_map_Sdk [simp]:
  "filter is_inference (map Sdk cs) = []"
  "filter is_sdk (map Sdk cs) = map Sdk cs"
  "filter is_output (map Sdk cs) = []"
  "filter is_stdout (map Sdk cs) = []"
  "filter is_polylines (map Sdk cs) = []"
  "filter is_imwrite (map Sdk cs) = []"
  by (simp_all add: filter_empty_conv filter_id_conv)

lemma length_setup_calls [simp]: "length (setup_calls argv) = 5"
  by (simp add: setup_calls_def)

lemma final_round_events:
  assumes "final_results env argv w = (bboxes, texts)"
  shows "round_events env (imread env (argv ! 4)) (world_after_warmup env argv w) =
     [DetectorApply (imread env (argv ! 4)) bboxes,
      RecognizerApply (imread env (argv ! 4)) bboxes texts]"
  using assms by (auto simp: final_results_def round_events_def split: prod.splits)

subsection \<open>The conversion to \<open>int\<close> truncates\<close>

lemma truncate_of_int: "truncate_toward_zero (of_int k) = k"
  by (simp add: truncate_toward_zero_def)

lemma integral_part_truncates:
  assumes "finite_value (Finite m e) = Some r"
  shows "integral_part m e = truncate_toward_zero r"
proof (cases "0 \<le> e")
  case True
  with assms have "r = of_int (m * 2 ^ nat e)" by auto
  with True show ?thesis
    by (simp only: truncate_of_int integral_part_def if_True)
next
  case False
  define d :: int where "d = 2 ^ nat (- e)"
  have dpos: "0 < d" by (simp add: d_def)
  from False assms have r: "r = of_int m / of_int d" by (auto simp: d_def)
  have ip: "integral_part m e = sgn m * (\<bar>m\<bar> div d)"
    using False by (simp add: integral_part_def d_def)
  show ?thesis
  proof (cases "0 \<le> m")
    case True
    then have "0 \<le> r" using dpos by (simp add: r)
    then have "truncate_toward_zero r = m div d"
      by (simp add: truncate_toward_zero_def r floor_divide_of_int_eq)
    moreover have "sgn m * (\<bar>m\<bar> div d) = m div d"
      using True by (cases "m = 0") (simp_all add: sgn_if)
    ultimately show ?thesis by (simp add: ip)
  next
    case False
    then have "r < 0" using dpos by (simp add: r divide_neg_pos)
    then have "truncate_toward_zero r = \<lceil>r\<rceil>"
      by (simp add: truncate_toward_zero_def)
    also have "\<dots> = - \<lfloor>of_int (- m) / (of_int d :: real)\<rfloor>"
      by (simp add: ceiling_def r)
    also have "\<dots> = - ((- m) div d)"
      by (simp only: floor_divide_of_int_eq)
    finally show ?thesis using False by (simp add: ip sgn_if)
  qed
qed

lemma int_cast_is_truncation:
  assumes "int_representable f"
  shows "int_cast env f = truncate_toward_zero (the (finite_value f))"
proof (cases f)
  case (Finite m e)
  obtain r where r: "finite_value (Finite m e) = Some r" by simp
  from assms Finite r have "- (2 ^ 31) \<le> truncate_toward_zero r \<and> truncate_toward_zero r < 2 ^ 31"
    by (simp add: int_representable_def del: finite_value.simps)
  then show ?thesis
    unfolding Finite using integral_part_truncates [OF r] r
    by (simp add: Let_def del: finite_value.simps)
qed (use assms in \<open>simp_all add: int_representable_def\<close>)

subsection \<open>The output loop, box by box\<close>

lemma out_events_index:
  "out_events env img k bs ts =
     concat (map (\<lambda>j. box_events env (foldl (draw env) img (take j bs)) (k + j) (bs ! j) (ts ! j))
               [0..<min (length bs) (length ts)])"
proof (induction env img k bs ts rule: out_events.induct)
  case (1 env img i b bs t ts)
  have u: "[0..<Suc n] = 0 # map Suc [0..<n]" for n
    by (simp add: upt_conv_Cons map_Suc_upt del: upt_Suc)
  have "min (length (b # bs)) (length (t # ts)) = Suc (min (length bs) (length ts))"
    by simp
  then show ?case
    using 1 by (simp only: u) (simp add: comp_def)
qed simp_all

lemma filter_out_events_polylines:
  "filter is_polylines (out_events env img 0 bs ts) =
     map (\<lambda>i. Polylines (foldl (draw env) img (take i bs)) (poly_of env (bs ! i)) True
                 (Scalar 0 255 0))
       [0..<min (length bs) (length ts)]"
  by (simp add: out_events_index filter_concat comp_def)

lemma filter_out_events_stdout:
  "filter is_stdout (out_events env img 0 bs ts) =
     concat (map (\<lambda>i. Fprintf Stdout (''box[%d]: %s'' @ [LF])
                         [ArgInt (int i), ArgStr (rec_text (ts ! i))]
                       # map coord_event (bbox (bs ! i)) @ [Fprintf Stdout [LF] []])
               [0..<min (length bs) (length ts)])"
  by (simp add: out_events_index filter_concat comp_def)

lemma out_events_cong:
  fixes env :: "('w, 'px) env" and env' :: "('v, 'px) env"
  assumes "polylines env' = polylines env"
    and "cast_unrepresentable env' = cast_unrepresentable env"
  shows "out_events env' img i bs ts = out_events env img i bs ts"
proof -
  have c: "int_cast env' f = int_cast env f" for f
    using assms(2) by (cases f) (simp_all add: Let_def)
  have p: "poly_of env' b = poly_of env b" for b
    by (simp add: poly_of_def c)
  have d: "draw env' im b = draw env im b" for im b
    by (simp add: draw_def p assms(1))
  have b: "box_events env' im j b t = box_events env im j b t" for im j b t
    by (simp add: box_events_def p)
  show ?thesis
  proof (induction bs arbitrary: img i ts)
    case Nil
    show ?case by simp
  next
    case (Cons b bs)
    show ?case by (cases ts) (simp_all add: b d Cons.IH)
  qed
qed

lemma draw_cong:
  fixes env :: "('w, 'px) env" and env' :: "('v, 'px) env"
  assumes "polylines env' = polylines env"
    and "cast_unrepresentable env' = cast_unrepresentable env"
  shows "draw env' = draw env"
proof -
  have c: "int_cast env' f = int_cast env f" for f
    using assms(2) by (cases f) (simp_all add: Let_def)
  show ?thesis
    by (intro ext) (simp add: draw_def poly_of_def c assms(1))
qed

subsection \<open>The concrete environment\<close>

lemma demo_argc: "length demo_argv = 5"
  by (simp add: demo_argv_def)

lemma demo_imread: "imread (demo_env warm k) (demo_argv ! 4) = \<lparr>data = Some 7\<rparr>"
  by (simp add: demo_argv_def demo_env_def)

lemma demo_loaded: "data (imread (demo_env warm k) (demo_argv ! 4)) \<noteq> None"
  by (simp add: demo_imread)

lemma demo_infer_round:
  "infer_round (demo_env warm k) img w =
     (if w < 45 then warm else [demo_box 1, demo_box 2],
      map (\<lambda>t. \<lparr>rec_text = t\<rparr>)
        (take (min k (length (if w < 45 then warm else [demo_box 1, demo_box 2])))
           [''one'', ''two'', ''three'']),
      w + 2)"
  by (simp add: infer_round_def demo_env_def)

lemma demo_rounds_world: "rounds_world (demo_env warm k) img n w = w + 2 * n"
  by (induction n arbitrary: w) (simp_all add: demo_infer_round)

lemma demo_rounds_events:
  "w + 2 * n \<le> 45 \<Longrightarrow>
   rounds_events (demo_env warm k) img n w =
     concat (replicate n
       [DetectorApply img warm,
        RecognizerApply img warm
          (map (\<lambda>t. \<lparr>rec_text = t\<rparr>) (take (min k (length warm)) [''one'', ''two'', ''three'']))])"
  by (induction n arbitrary: w) (simp_all add: round_events_def demo_infer_round)

lemma demo_setup_world: "setup_world (demo_env warm k) argv w = w + 5"
  by (simp add: setup_world_def setup_calls_def demo_env_def)

lemma demo_world_after_warmup: "world_after_warmup (demo_env warm k) demo_argv 0 = 45"
  by (simp add: world_after_warmup_def demo_rounds_world demo_setup_world)

lemma demo_final_results:
  "final_results (demo_env warm k) demo_argv 0 =
     ([demo_box 1, demo_box 2],
      map (\<lambda>t. \<lparr>rec_text = t\<rparr>) (take (min k 2) [''one'', ''two'', ''three'']))"
  by (simp add: final_results_def demo_world_after_warmup demo_infer_round numeral_2_eq_2)

lemma demo_poly_of:
  "poly_of (demo_env warm k) (demo_box 1) = [CvPoint 3 (- 2), CvPoint 6 5]"
  "poly_of (demo_env warm k) (demo_box 2) = [CvPoint 4 (- 2), CvPoint 6 5]"
  by (simp_all add: poly_of_def demo_box_def integral_part_def)

lemma demo_draw:
  "draw (demo_env warm k) \<lparr>data = Some n\<rparr> (demo_box 1) = \<lparr>data = Some (n + 2)\<rparr>"
  "draw (demo_env warm k) \<lparr>data = Some n\<rparr> (demo_box 2) = \<lparr>data = Some (n + 2)\<rparr>"
  by (simp_all add: draw_def demo_poly_of) (simp_all add: demo_env_def)

lemma demo_out_events:
  "out_events (demo_env warm k) \<lparr>data = Some 7\<rparr> 0 [demo_box 1, demo_box 2]
     [\<lparr>rec_text = ''one''\<rparr>, \<lparr>rec_text = ''two''\<rparr>] =
   [Fprintf Stdout (''box[%d]: %s'' @ [LF]) [ArgInt 0, ArgStr ''one''],
    Fprintf Stdout ''x: %.2f, y: %.2f, '' [ArgDouble (Finite 15 (- 2)), ArgDouble (Finite (- 11) (- 2))],
    Fprintf Stdout ''x: %.2f, y: %.2f, '' [ArgDouble (Finite 3 1), ArgDouble (Finite 5 0)],
    Fprintf Stdout [LF] [],
    Polylines \<lparr>data = Some 7\<rparr> [CvPoint 3 (- 2), CvPoint 6 5] True (Scalar 0 255 0),
    Fprintf Stdout (''box[%d]: %s'' @ [LF]) [ArgInt 1, ArgStr ''two''],
    Fprintf Stdout ''x: %.2f, y: %.2f, '' [ArgDouble (Finite 19 (- 2)), ArgDouble (Finite (- 11) (- 2))],
    Fprintf Stdout ''x: %.2f, y: %.2f, '' [ArgDouble (Finite 3 1), ArgDouble (Finite 5 0)],
    Fprintf Stdout [LF] [],
    Polylines \<lparr>data = Some 9\<rparr> [CvPoint 4 (- 2), CvPoint 6 5] True (Scalar 0 255 0)]"
  by (simp add: box_events_def demo_poly_of demo_draw) (simp add: demo_box_def coord_event_def)

lemma demo_final_two:
  "final_results (demo_env warm 2) demo_argv 0 =
     ([demo_box 1, demo_box 2], [\<lparr>rec_text = ''one''\<rparr>, \<lparr>rec_text = ''two''\<rparr>])"
  by (simp add: demo_final_results)

lemma demo_final_one:
  "final_results (demo_env warm 1) demo_argv 0 = ([demo_box 1, demo_box 2], [\<lparr>rec_text = ''one''\<rparr>])"
  by (simp add: demo_final_results)

lemma main_result:
  fixes env :: "('w, 'px) env"
  assumes "length argv = 5" and "data (imread env (argv ! 4)) \<noteq> None"
    and "final_results env argv w = (bboxes, texts)"
  shows "fst (main env argv w) =
     (if length bboxes \<le> length texts then Inr 0 else Inl IndexOutOfBounds)"
proof -
  from assms(3) obtain w1 w2 where
    d: "det_apply env (imread env (argv ! 4)) (world_after_warmup env argv w) = (bboxes, w1)"
    and r: "rec_apply env (imread env (argv ! 4)) bboxes w1 = (texts, w2)"
    by (rule final_resultsD)
  show ?thesis
    by (simp add: main_run [OF assms(1,2) d r])
qed

section \<open>The claims\<close>

text \<open>
  C1. The program returns 1 exactly when the argument count is not 5 or the image was not
  decoded (its \<open>data\<close> is null); every other run that returns, returns 0. No other
  condition makes it return 1.
\<close>

theorem exit_status:
  fixes env :: "('w, 'px) env"
  shows "(fst (main env argv w) = Inr 1) =
           (length argv \<noteq> 5 \<or> data (imread env (argv ! 4)) = None)
       \<and> (\<forall>n. fst (main env argv w) = Inr n \<longrightarrow> n \<noteq> 1 \<longrightarrow> n = 0)"
proof (cases "length argv \<noteq> 5 \<or> data (imread env (argv ! 4)) = None")
  case True
  then show ?thesis by (auto simp: main_def Let_def)
next
  case False
  obtain bboxes texts where f: "final_results env argv w = (bboxes, texts)"
    by (cases "final_results env argv w")
  from f obtain w1 w2 where
    d: "det_apply env (imread env (argv ! 4)) (world_after_warmup env argv w) = (bboxes, w1)"
    and r: "rec_apply env (imread env (argv ! 4)) bboxes w1 = (texts, w2)"
    by (rule final_resultsD)
  from False have "length argv = 5" and "data (imread env (argv ! 4)) \<noteq> None"
    by simp_all
  from main_run [OF this d r] False show ?thesis
    by (simp split: if_splits)
qed

theorem exit_status_witness:
  "fst (main (demo_env [] 2) [''ocr''] 0) = Inr 1
   \<and> fst (main (demo_env [] 2) [''ocr'', ''cpu'', ''det'', ''reg'', ''none.png''] 0) = Inr 1
   \<and> length demo_argv = 5 \<and> data (imread (demo_env [] 2) (demo_argv ! 4)) \<noteq> None
   \<and> fst (main (demo_env [] 2) demo_argv 0) \<noteq> Inr 1"
proof -
  have "data (imread (demo_env [] 2) ''none.png'') = None"
    by (simp add: demo_env_def)
  then show ?thesis
    using exit_status [of "demo_env [] 2" "[''ocr'']" 0]
      exit_status [of "demo_env [] 2" "[''ocr'', ''cpu'', ''det'', ''reg'', ''none.png'']" 0]
      exit_status [of "demo_env [] 2" demo_argv 0]
    by (simp add: demo_argc demo_loaded)
qed

text \<open>
  C2. In a run that passes the two guards the inference calls are, in order, those of 21
  rounds. Each round (\<open>round_events\<close>) applies the detector to the loaded image and then
  the recognizer to the same image and to the whole list of boxes which that detection
  returned: \<open>Span bboxes 0 (length bboxes)\<close> is \<open>bboxes\<close>.
\<close>

theorem two_stage_rounds:
  fixes env :: "('w, 'px) env"
  assumes "length argv = 5" and "data (imread env (argv ! 4)) \<noteq> None"
  shows "filter is_inference (trace (snd (main env argv w))) =
           rounds_events env (imread env (argv ! 4)) 21 (setup_world env argv w)"
proof -
  obtain bboxes texts where f: "final_results env argv w = (bboxes, texts)"
    by (cases "final_results env argv w")
  from f obtain w1 w2 where
    d: "det_apply env (imread env (argv ! 4)) (world_after_warmup env argv w) = (bboxes, w1)"
    and r: "rec_apply env (imread env (argv ! 4)) bboxes w1 = (texts, w2)"
    by (rule final_resultsD)
  have "rounds_events env (imread env (argv ! 4)) 21 (setup_world env argv w) =
      rounds_events env (imread env (argv ! 4)) (Suc 20) (setup_world env argv w)"
    by simp
  also have "\<dots> =
      rounds_events env (imread env (argv ! 4)) 20 (setup_world env argv w)
        @ [DetectorApply (imread env (argv ! 4)) bboxes,
           RecognizerApply (imread env (argv ! 4)) bboxes texts]"
    unfolding rounds_events_snoc
    using final_round_events [OF f] by (simp add: world_after_warmup_def)
  finally show ?thesis
    by (simp add: main_run [OF assms d r])
qed

theorem two_stage_rounds_witness:
  "filter is_inference (trace (snd (main (demo_env [demo_box 0] 2) demo_argv 0))) =
     concat (replicate 20
       [DetectorApply \<lparr>data = Some 7\<rparr> [demo_box 0],
        RecognizerApply \<lparr>data = Some 7\<rparr> [demo_box 0] [\<lparr>rec_text = ''one''\<rparr>]])
     @ [DetectorApply \<lparr>data = Some 7\<rparr> [demo_box 1, demo_box 2],
        RecognizerApply \<lparr>data = Some 7\<rparr> [demo_box 1, demo_box 2]
          [\<lparr>rec_text = ''one''\<rparr>, \<lparr>rec_text = ''two''\<rparr>]]"
proof -
  have "rounds_events (demo_env [demo_box 0] 2) \<lparr>data = Some 7\<rparr> 21 5 =
      rounds_events (demo_env [demo_box 0] 2) \<lparr>data = Some 7\<rparr> (Suc 20) 5"
    by simp
  also have "\<dots> =
      concat (replicate 20
        [DetectorApply \<lparr>data = Some 7\<rparr> [demo_box 0],
         RecognizerApply \<lparr>data = Some 7\<rparr> [demo_box 0] [\<lparr>rec_text = ''one''\<rparr>]])
      @ [DetectorApply \<lparr>data = Some 7\<rparr> [demo_box 1, demo_box 2],
         RecognizerApply \<lparr>data = Some 7\<rparr> [demo_box 1, demo_box 2]
           [\<lparr>rec_text = ''one''\<rparr>, \<lparr>rec_text = ''two''\<rparr>]]"
    unfolding rounds_events_snoc
    by (simp add: demo_rounds_events demo_rounds_world round_events_def demo_infer_round)
  finally show ?thesis
    using two_stage_rounds [OF demo_argc demo_loaded, of "[demo_box 0]" 2 0]
    by (simp add: demo_imread demo_setup_world)
qed

text \<open>
  C3. In a run that passes the guards, the first 45 events are the 5 set-up calls followed
  by 20 rounds of detection and recognition on the loaded image, and none of them is an
  output. The results of these rounds are thrown away: a second environment that reads
  the same image, draws and converts in the same way and returns the same results in the
  round after the loop gives the same output events, whatever it returns in the 20 rounds.
\<close>

theorem warmup_rounds:
  fixes env :: "('w, 'px) env" and env' :: "('v, 'px) env"
  assumes "length argv = 5" and "data (imread env (argv ! 4)) \<noteq> None"
    and "imread env' = imread env"
    and "polylines env' = polylines env"
    and "cast_unrepresentable env' = cast_unrepresentable env"
    and "final_results env' argv w' = final_results env argv w"
  shows "take 45 (trace (snd (main env argv w))) =
           map Sdk (setup_calls argv)
             @ rounds_events env (imread env (argv ! 4)) 20 (setup_world env argv w)
       \<and> filter is_output (take 45 (trace (snd (main env argv w)))) = []
       \<and> filter is_output (trace (snd (main env' argv w'))) =
           filter is_output (trace (snd (main env argv w)))"
proof -
  obtain bboxes texts where f: "final_results env argv w = (bboxes, texts)"
    by (cases "final_results env argv w")
  from f obtain w1 w2 where
    d: "det_apply env (imread env (argv ! 4)) (world_after_warmup env argv w) = (bboxes, w1)"
    and r: "rec_apply env (imread env (argv ! 4)) bboxes w1 = (texts, w2)"
    by (rule final_resultsD)
  from f assms(6) have f': "final_results env' argv w' = (bboxes, texts)"
    by simp
  from f' obtain w1' w2' where
    d': "det_apply env' (imread env' (argv ! 4)) (world_after_warmup env' argv w') = (bboxes, w1')"
    and r': "rec_apply env' (imread env' (argv ! 4)) bboxes w1' = (texts, w2')"
    by (rule final_resultsD)
  have g': "data (imread env' (argv ! 4)) \<noteq> None"
    using assms(2,3) by simp
  have t: "take 45 (trace (snd (main env argv w))) =
           map Sdk (setup_calls argv)
             @ rounds_events env (imread env (argv ! 4)) 20 (setup_world env argv w)"
    by (simp add: main_run [OF assms(1,2) d r])
  have o: "filter is_output (trace (snd (main env argv w))) =
      out_events env (imread env (argv ! 4)) 0 bboxes texts
        @ (if length bboxes \<le> length texts
           then [Imwrite ''output_ocr.png'' (foldl (draw env) (imread env (argv ! 4)) bboxes)]
           else [])"
    by (simp add: main_run [OF assms(1,2) d r])
  have o': "filter is_output (trace (snd (main env' argv w'))) =
      out_events env' (imread env' (argv ! 4)) 0 bboxes texts
        @ (if length bboxes \<le> length texts
           then [Imwrite ''output_ocr.png'' (foldl (draw env') (imread env' (argv ! 4)) bboxes)]
           else [])"
    by (simp add: main_run [OF assms(1) g' d' r'])
  have "filter is_output (trace (snd (main env' argv w'))) =
      filter is_output (trace (snd (main env argv w)))"
    unfolding o o'
    by (simp only: out_events_cong [OF assms(4,5)] draw_cong [OF assms(4,5)] assms(3))
  with t show ?thesis by simp
qed

theorem warmup_rounds_witness:
  "take 45 (trace (snd (main (demo_env [demo_box 0] 2) demo_argv 0))) =
     [Sdk (NewContext (Context (Device ''cpu'' 0))),
      Sdk (NewProfiler (Profiler ''/deploee-tmp/profile.bin'')),
      Sdk (ContextAdd (Context (Device ''cpu'' 0)) (Profiler ''/deploee-tmp/profile.bin'')),
      Sdk (NewTextDetector (Model ''det'') (Context (Device ''cpu'' 0))),
      Sdk (NewTextRecognizer (Model ''reg'') (Context (Device ''cpu'' 0)))]
     @ concat (replicate 20
         [DetectorApply \<lparr>data = Some 7\<rparr> [demo_box 0],
          RecognizerApply \<lparr>data = Some 7\<rparr> [demo_box 0] [\<lparr>rec_text = ''one''\<rparr>]])
   \<and> filter is_output (trace (snd (main (demo_env [] 2) demo_argv 0))) =
       filter is_output (trace (snd (main (demo_env [demo_box 0] 2) demo_argv 0)))"
proof -
  have "imread (demo_env [] 2) = imread (demo_env [demo_box 0] 2)"
    and "polylines (demo_env [] 2) = polylines (demo_env [demo_box 0] 2)"
    and "cast_unrepresentable (demo_env [] 2) = cast_unrepresentable (demo_env [demo_box 0] 2)"
    and "final_results (demo_env [] 2) demo_argv 0 = final_results (demo_env [demo_box 0] 2) demo_argv 0"
    by (simp_all add: demo_final_results) (simp_all add: demo_env_def)
  from warmup_rounds [OF demo_argc demo_loaded this]
  show ?thesis
    by (simp add: demo_imread demo_setup_world demo_rounds_events)
       (simp add: setup_calls_def demo_argv_def)
qed

text \<open>
  C4. After the 45 events of set-up and warm-up the run makes one detection and one
  recognition, its only inference calls from there on, and everything that follows (the
  lines on stdout, the polygons, the image written) is \<open>out_events\<close> and \<open>draw\<close>
  of the boxes and texts of this one round.
\<close>

theorem final_round_used:
  fixes env :: "('w, 'px) env"
  assumes "length argv = 5" and "data (imread env (argv ! 4)) \<noteq> None"
    and "final_results env argv w = (bboxes, texts)"
  shows "drop 45 (trace (snd (main env argv w))) =
           [DetectorApply (imread env (argv ! 4)) bboxes,
            RecognizerApply (imread env (argv ! 4)) bboxes texts]
           @ out_events env (imread env (argv ! 4)) 0 bboxes texts
           @ (if length bboxes \<le> length texts
              then [Imwrite ''output_ocr.png'' (foldl (draw env) (imread env (argv ! 4)) bboxes)]
              else [])
       \<and> filter is_inference (drop 45 (trace (snd (main env argv w)))) =
           [DetectorApply (imread env (argv ! 4)) bboxes,
            RecognizerApply (imread env (argv ! 4)) bboxes texts]"
proof -
  from assms(3) obtain w1 w2 where
    d: "det_apply env (imread env (argv ! 4)) (world_after_warmup env argv w) = (bboxes, w1)"
    and r: "rec_apply env (imread env (argv ! 4)) bboxes w1 = (texts, w2)"
    by (rule final_resultsD)
  show ?thesis
    by (simp add: main_run [OF assms(1,2) d r])
qed

theorem final_round_used_witness:
  "drop 45 (trace (snd (main (demo_env [demo_box 0] 2) demo_argv 0))) =
   [DetectorApply \<lparr>data = Some 7\<rparr> [demo_box 1, demo_box 2],
    RecognizerApply \<lparr>data = Some 7\<rparr> [demo_box 1, demo_box 2]
      [\<lparr>rec_text = ''one''\<rparr>, \<lparr>rec_text = ''two''\<rparr>],
    Fprintf Stdout (''box[%d]: %s'' @ [LF]) [ArgInt 0, ArgStr ''one''],
    Fprintf Stdout ''x: %.2f, y: %.2f, '' [ArgDouble (Finite 15 (- 2)), ArgDouble (Finite (- 11) (- 2))],
    Fprintf Stdout ''x: %.2f, y: %.2f, '' [ArgDouble (Finite 3 1), ArgDouble (Finite 5 0)],
    Fprintf Stdout [LF] [],
    Polylines \<lparr>data = Some 7\<rparr> [CvPoint 3 (- 2), CvPoint 6 5] True (Scalar 0 255 0),
    Fprintf Stdout (''box[%d]: %s'' @ [LF]) [ArgInt 1, ArgStr ''two''],
    Fprintf Stdout ''x: %.2f, y: %.2f, '' [ArgDouble (Finite 19 (- 2)), ArgDouble (Finite (- 11) (- 2))],
    Fprintf Stdout ''x: %.2f, y: %.2f, '' [ArgDouble (Finite 3 1), ArgDouble (Finite 5 0)],
    Fprintf Stdout [LF] [],
    Polylines \<lparr>data = Some 9\<rparr> [CvPoint 4 (- 2), CvPoint 6 5] True (Scalar 0 255 0),
    Imwrite ''output_ocr.png'' \<lparr>data = Some 11\<rparr>]"
proof -
  have f: "final_results (demo_env [demo_box 0] 2) demo_argv 0 =
      ([demo_box 1, demo_box 2], [\<lparr>rec_text = ''one''\<rparr>, \<lparr>rec_text = ''two''\<rparr>])"
    by (simp add: demo_final_results)
  from final_round_used [OF demo_argc demo_loaded f, THEN conjunct1,
      unfolded demo_imread demo_out_events]
  show ?thesis
    by (simp add: demo_draw)
qed

text \<open>
  C5. When the recognizer returned a text for every box of the final detection, the run
  draws exactly one polygon per box, in box order: a closed one (\<open>True\<close>), through the
  converted vertices of that box, onto the loaded image as annotated so far. It writes an
  image exactly once, as its last event: the image with all the polygons, to
  \<open>output_ocr.png\<close>.
\<close>

theorem polygons_and_write:
  fixes env :: "('w, 'px) env"
  assumes "length argv = 5" and "data (imread env (argv ! 4)) \<noteq> None"
    and "final_results env argv w = (bboxes, texts)"
    and "length bboxes \<le> length texts"
  shows "filter is_polylines (trace (snd (main env argv w))) =
           map (\<lambda>i. Polylines (foldl (draw env) (imread env (argv ! 4)) (take i bboxes))
                       (map (\<lambda>pt. CvPoint (int_cast env (pt_x pt)) (int_cast env (pt_y pt)))
                          (bbox (bboxes ! i)))
                       True (Scalar 0 255 0))
             [0..<length bboxes]
       \<and> filter is_imwrite (trace (snd (main env argv w))) =
           [Imwrite ''output_ocr.png'' (foldl (draw env) (imread env (argv ! 4)) bboxes)]
       \<and> last (trace (snd (main env argv w))) =
           Imwrite ''output_ocr.png'' (foldl (draw env) (imread env (argv ! 4)) bboxes)"
proof -
  from assms(3) obtain w1 w2 where
    d: "det_apply env (imread env (argv ! 4)) (world_after_warmup env argv w) = (bboxes, w1)"
    and r: "rec_apply env (imread env (argv ! 4)) bboxes w1 = (texts, w2)"
    by (rule final_resultsD)
  have m: "min (length bboxes) (length texts) = length bboxes"
    using assms(4) by simp
  show ?thesis
    using assms(4)
    by (simp add: main_run [OF assms(1,2) d r] filter_out_events_polylines m poly_of_def)
qed

theorem polygons_and_write_witness:
  "filter is_polylines (trace (snd (main (demo_env [demo_box 0] 2) demo_argv 0))) =
     [Polylines \<lparr>data = Some 7\<rparr> [CvPoint 3 (- 2), CvPoint 6 5] True (Scalar 0 255 0),
      Polylines \<lparr>data = Some 9\<rparr> [CvPoint 4 (- 2), CvPoint 6 5] True (Scalar 0 255 0)]
   \<and> filter is_imwrite (trace (snd (main (demo_env [demo_box 0] 2) demo_argv 0))) =
     [Imwrite ''output_ocr.png'' \<lparr>data = Some 11\<rparr>]
   \<and> last (trace (snd (main (demo_env [demo_box 0] 2) demo_argv 0))) =
     Imwrite ''output_ocr.png'' \<lparr>data = Some 11\<rparr>"
proof -
  have l: "length [demo_box 1, demo_box 2]
      \<le> length [\<lparr>rec_text = ''one''\<rparr>, \<lparr>rec_text = ''two''\<rparr>]"
    by simp
  have u: "[0..<length [demo_box 1, demo_box 2]] = [0, 1]"
    by (simp add: upt_conv_Cons)
  from polygons_and_write [OF demo_argc demo_loaded demo_final_two l, of "[demo_box 0]",
      unfolded demo_imread u poly_of_def [symmetric]]
  show ?thesis
    by (simp add: demo_draw demo_poly_of)
qed

text \<open>
  C6. When a guard fails the run returns 1 and its only event is one \<open>fprintf\<close> to
  stderr: no SDK object is constructed, no inference is made, nothing is drawn or written,
  and the SDK's state is the initial one.
\<close>

theorem guard_failure_run:
  assumes "length argv \<noteq> 5 \<or> data (imread env (argv ! 4)) = None"
  shows "main env argv w =
     (Inr 1,
      \<lparr>world = w,
       trace =
         [if length argv \<noteq> 5
          then Fprintf Stderr
                 (''usage:'' @ [LF]
                    @ ''  ocr device_name det_model_path reg_model_path image_path'' @ [LF]) []
          else Fprintf Stderr (''failed to load image: %s'' @ [LF]) [ArgStr (argv ! 4)]]\<rparr>)"
  using assms by (auto simp: main_def Let_def emit_def)

theorem guard_failure_run_witness:
  "main (demo_env [] 2) [''ocr'', ''cpu''] 3 =
     (Inr 1,
      \<lparr>world = 3,
       trace = [Fprintf Stderr
                 (''usage:'' @ [LF]
                    @ ''  ocr device_name det_model_path reg_model_path image_path'' @ [LF]) []]\<rparr>)
   \<and> main (demo_env [] 2) [''ocr'', ''cpu'', ''det'', ''reg'', ''none.png''] 3 =
     (Inr 1,
      \<lparr>world = 3,
       trace = [Fprintf Stderr (''failed to load image: %s'' @ [LF]) [ArgStr ''none.png'']]\<rparr>)"
  using guard_failure_run [of "[''ocr'', ''cpu'']" "demo_env [] 2" 3]
    guard_failure_run [of "[''ocr'', ''cpu'', ''det'', ''reg'', ''none.png'']" "demo_env [] 2" 3]
  by (simp add: demo_env_def)

text \<open>
  C7. When the recognizer returned a text for every box of the final detection, what the
  run prints to stdout is, for the boxes \<open>0, 1, 2, ...\<close> in order: one \<open>fprintf\<close> of
  \<open>"box[%d]: %s\n"\<close> with the index and the text of the box, then for each vertex of
  the box one \<open>fprintf\<close> of \<open>"x: %.2f, y: %.2f, "\<close> with its two coordinates, then a
  newline.
\<close>

theorem stdout_lines:
  fixes env :: "('w, 'px) env"
  assumes "length argv = 5" and "data (imread env (argv ! 4)) \<noteq> None"
    and "final_results env argv w = (bboxes, texts)"
    and "length bboxes \<le> length texts"
  shows "filter is_stdout (trace (snd (main env argv w))) =
           concat (map (\<lambda>i. Fprintf Stdout (''box[%d]: %s'' @ [LF])
                               [ArgInt (int i), ArgStr (rec_text (texts ! i))]
                             # map (\<lambda>pt. Fprintf Stdout ''x: %.2f, y: %.2f, ''
                                            [ArgDouble (pt_x pt), ArgDouble (pt_y pt)])
                                 (bbox (bboxes ! i))
                             @ [Fprintf Stdout [LF] []])
                     [0..<length bboxes])"
proof -
  from assms(3) obtain w1 w2 where
    d: "det_apply env (imread env (argv ! 4)) (world_after_warmup env argv w) = (bboxes, w1)"
    and r: "rec_apply env (imread env (argv ! 4)) bboxes w1 = (texts, w2)"
    by (rule final_resultsD)
  have m: "min (length bboxes) (length texts) = length bboxes"
    using assms(4) by simp
  have c: "coord_event = (\<lambda>pt. Fprintf Stdout ''x: %.2f, y: %.2f, ''
                                  [ArgDouble (pt_x pt), ArgDouble (pt_y pt)] :: 'px event)"
    by (intro ext) (simp add: coord_event_def)
  have "filter is_stdout (trace (snd (main env argv w))) =
      filter is_stdout (out_events env (imread env (argv ! 4)) 0 bboxes texts)"
    using assms(4) by (simp add: main_run [OF assms(1,2) d r])
  then show ?thesis
    unfolding filter_out_events_stdout m c .
qed

theorem stdout_lines_witness:
  "filter is_stdout (trace (snd (main (demo_env [demo_box 0] 2) demo_argv 0))) =
   [Fprintf Stdout (''box[%d]: %s'' @ [LF]) [ArgInt 0, ArgStr ''one''],
    Fprintf Stdout ''x: %.2f, y: %.2f, '' [ArgDouble (Finite 15 (- 2)), ArgDouble (Finite (- 11) (- 2))],
    Fprintf Stdout ''x: %.2f, y: %.2f, '' [ArgDouble (Finite 3 1), ArgDouble (Finite 5 0)],
    Fprintf Stdout [LF] [],
    Fprintf Stdout (''box[%d]: %s'' @ [LF]) [ArgInt 1, ArgStr ''two''],
    Fprintf Stdout ''x: %.2f, y: %.2f, '' [ArgDouble (Finite 19 (- 2)), ArgDouble (Finite (- 11) (- 2))],
    Fprintf Stdout ''x: %.2f, y: %.2f, '' [ArgDouble (Finite 3 1), ArgDouble (Finite 5 0)],
    Fprintf Stdout [LF] []]"
proof -
  have l: "length [demo_box 1, demo_box 2]
      \<le> length [\<lparr>rec_text = ''one''\<rparr>, \<lparr>rec_text = ''two''\<rparr>]"
    by simp
  have u: "[0..<length [demo_box 1, demo_box 2]] = [0, 1]"
    by (simp add: upt_conv_Cons)
  from stdout_lines [OF demo_argc demo_loaded demo_final_two l, of "[demo_box 0]", unfolded u]
  show ?thesis
    by (simp add: demo_box_def)
qed

text \<open>
  C8. The output loop reads \<open>texts[i]\<close> for the indices below the number of boxes. The
  run stops on a read out of bounds exactly when some such index is not below the number
  of texts, that is when the recognizer returned fewer texts than there are boxes; when it
  returned at least as many, the run returns 0.
\<close>

theorem texts_index_in_bounds:
  fixes env :: "('w, 'px) env"
  assumes "length argv = 5" and "data (imread env (argv ! 4)) \<noteq> None"
    and "final_results env argv w = (bboxes, texts)"
  shows "(fst (main env argv w) = Inl IndexOutOfBounds) = (\<exists>i<length bboxes. \<not> i < length texts)
       \<and> (fst (main env argv w) = Inl IndexOutOfBounds) = (length texts < length bboxes)
       \<and> (fst (main env argv w) = Inr 0) = (length bboxes \<le> length texts)"
proof -
  from assms(3) obtain w1 w2 where
    d: "det_apply env (imread env (argv ! 4)) (world_after_warmup env argv w) = (bboxes, w1)"
    and r: "rec_apply env (imread env (argv ! 4)) bboxes w1 = (texts, w2)"
    by (rule final_resultsD)
  have "(\<exists>i<length bboxes. \<not> i < length texts) = (length texts < length bboxes)"
    by (metis not_less order.strict_trans2 order_refl less_le_not_le)
  then show ?thesis
    by (simp add: main_run [OF assms(1,2) d r])
qed

theorem texts_index_in_bounds_witness:
  "fst (main (demo_env [demo_box 0] 2) demo_argv 0) = Inr 0
   \<and> fst (main (demo_env [demo_box 0] 1) demo_argv 0) = Inl IndexOutOfBounds"
  using texts_index_in_bounds [OF demo_argc demo_loaded demo_final_two, of "[demo_box 0]"]
    texts_index_in_bounds [OF demo_argc demo_loaded demo_final_one, of "[demo_box 0]"]
  by simp

text \<open>
  C9. The path of the image written is always \<open>output_ocr.png\<close> and the path given to
  the profiler is always \<open>/deploee-tmp/profile.bin\<close>, whatever the arguments.
  \<open>argv[0]\<close> is not used; \<open>argv[1]\<close> names the device, \<open>argv[2]\<close> and
  \<open>argv[3]\<close> the two models, and \<open>argv[4]\<close> the image read.
\<close>

theorem fixed_paths:
  fixes env :: "('w, 'px) env"
  shows "main env (a # args) w = main env (a' # args) w
       \<and> (\<forall>path img. Imwrite path img \<in> set (trace (snd (main env argv w)))
             \<longrightarrow> path = ''output_ocr.png'')
       \<and> (\<forall>path. Sdk (NewProfiler (Profiler path)) \<in> set (trace (snd (main env argv w)))
             \<longrightarrow> path = ''/deploee-tmp/profile.bin'')
       \<and> (length argv = 5 \<and> data (imread env (argv ! 4)) \<noteq> None \<longrightarrow>
            filter is_sdk (trace (snd (main env argv w))) =
              [Sdk (NewContext (Context (Device (argv ! 1) 0))),
               Sdk (NewProfiler (Profiler ''/deploee-tmp/profile.bin'')),
               Sdk (ContextAdd (Context (Device (argv ! 1) 0))
                      (Profiler ''/deploee-tmp/profile.bin'')),
               Sdk (NewTextDetector (Model (argv ! 2)) (Context (Device (argv ! 1) 0))),
               Sdk (NewTextRecognizer (Model (argv ! 3)) (Context (Device (argv ! 1) 0)))]
            \<and> filter is_imwrite (trace (snd (main env argv w))) =
                 (if fst (main env argv w) = Inr 0
                  then [Imwrite ''output_ocr.png''
                          (foldl (draw env) (imread env (argv ! 4)) (fst (final_results env argv w)))]
                  else []))"
proof -
  have a0: "main env (a # args) w = main env (a' # args) w"
    by (simp add: main_def Let_def)
  have mem: "e \<in> set xs \<and> P e \<longleftrightarrow> e \<in> set (filter P xs)" for e :: "'px event" and xs P
    by auto
  have iw: "Imwrite path img \<in> set xs \<longleftrightarrow> Imwrite path img \<in> set (filter is_imwrite xs)"
    for path img and xs :: "'px event list"
    by simp
  have sd: "Sdk c \<in> set xs \<longleftrightarrow> Sdk c \<in> set (filter is_sdk xs)"
    for c and xs :: "'px event list"
    by simp
  show ?thesis
  proof (cases "length argv \<noteq> 5 \<or> data (imread env (argv ! 4)) = None")
    case True
    then have "\<exists>fmt args. trace (snd (main env argv w)) = [Fprintf Stderr fmt args]"
      by (auto simp: main_def Let_def emit_def)
    then show ?thesis
      using True a0 by auto
  next
    case False
    then have g: "length argv = 5" "data (imread env (argv ! 4)) \<noteq> None"
      by simp_all
    obtain bboxes texts where f: "final_results env argv w = (bboxes, texts)"
      by (cases "final_results env argv w")
    from f obtain w1 w2 where
      d: "det_apply env (imread env (argv ! 4)) (world_after_warmup env argv w) = (bboxes, w1)"
      and r: "rec_apply env (imread env (argv ! 4)) bboxes w1 = (texts, w2)"
      by (rule final_resultsD)
    have s: "filter is_sdk (trace (snd (main env argv w))) = map Sdk (setup_calls argv)"
      by (simp add: main_run [OF g d r])
    have i: "filter is_imwrite (trace (snd (main env argv w))) =
        (if length bboxes \<le> length texts
         then [Imwrite ''output_ocr.png'' (foldl (draw env) (imread env (argv ! 4)) bboxes)]
         else [])"
      by (simp add: main_run [OF g d r])
    have o: "(fst (main env argv w) = Inr 0) = (length bboxes \<le> length texts)"
      by (simp add: main_run [OF g d r])
    have "\<forall>path img. Imwrite path img \<in> set (trace (snd (main env argv w)))
             \<longrightarrow> path = ''output_ocr.png''"
      unfolding iw [of _ _ "trace (snd (main env argv w))"] i by simp
    moreover have "\<forall>path. Sdk (NewProfiler (Profiler path)) \<in> set (trace (snd (main env argv w)))
             \<longrightarrow> path = ''/deploee-tmp/profile.bin''"
      unfolding sd [of _ "trace (snd (main env argv w))"] s by (simp add: setup_calls_def)
    ultimately show ?thesis
      using a0 by (simp add: s i o f setup_calls_def)
  qed
qed

theorem fixed_paths_witness:
  "main (demo_env [] 2) demo_argv 0 = main (demo_env [] 2) (''renamed'' # tl demo_argv) 0
   \<and> filter is_sdk (trace (snd (main (demo_env [] 2) demo_argv 0))) =
       [Sdk (NewContext (Context (Device ''cpu'' 0))),
        Sdk (NewProfiler (Profiler ''/deploee-tmp/profile.bin'')),
        Sdk (ContextAdd (Context (Device ''cpu'' 0)) (Profiler ''/deploee-tmp/profile.bin'')),
        Sdk (NewTextDetector (Model ''det'') (Context (Device ''cpu'' 0))),
        Sdk (NewTextRecognizer (Model ''reg'') (Context (Device ''cpu'' 0)))]
   \<and> filter is_imwrite (trace (snd (main (demo_env [] 2) demo_argv 0))) =
       [Imwrite ''output_ocr.png'' \<lparr>data = Some 11\<rparr>]"
proof -
  have o: "fst (main (demo_env [] 2) demo_argv 0) = Inr 0"
    by (simp add: main_result [OF demo_argc demo_loaded demo_final_two])
  have a: "''ocr'' # tl demo_argv = demo_argv"
    by (simp add: demo_argv_def)
  note fp = fixed_paths [of "demo_env [] 2" "''ocr''" "tl demo_argv" 0 "''renamed''" demo_argv,
      unfolded a]
  have 1: "main (demo_env [] 2) demo_argv 0 = main (demo_env [] 2) (''renamed'' # tl demo_argv) 0"
    by (rule fp [THEN conjunct1])
  have "filter is_sdk (trace (snd (main (demo_env [] 2) demo_argv 0))) =
          [Sdk (NewContext (Context (Device (demo_argv ! 1) 0))),
           Sdk (NewProfiler (Profiler ''/deploee-tmp/profile.bin'')),
           Sdk (ContextAdd (Context (Device (demo_argv ! 1) 0))
                  (Profiler ''/deploee-tmp/profile.bin'')),
           Sdk (NewTextDetector (Model (demo_argv ! 2)) (Context (Device (demo_argv ! 1) 0))),
           Sdk (NewTextRecognizer (Model (demo_argv ! 3)) (Context (Device (demo_argv ! 1) 0)))]
        \<and> filter is_imwrite (trace (snd (main (demo_env [] 2) demo_argv 0))) =
          (if fst (main (demo_env [] 2) demo_argv 0) = Inr 0
           then [Imwrite ''output_ocr.png''
                   (foldl (draw (demo_env [] 2)) (imread (demo_env [] 2) (demo_argv ! 4))
                      (fst (final_results (demo_env [] 2) demo_argv 0)))]
           else [])"
    using fp demo_argc demo_loaded [of "[]" 2] by blast
  then have 2: "filter is_sdk (trace (snd (main (demo_env [] 2) demo_argv 0))) =
       [Sdk (NewContext (Context (Device ''cpu'' 0))),
        Sdk (NewProfiler (Profiler ''/deploee-tmp/profile.bin'')),
        Sdk (ContextAdd (Context (Device ''cpu'' 0)) (Profiler ''/deploee-tmp/profile.bin'')),
        Sdk (NewTextDetector (Model ''det'') (Context (Device ''cpu'' 0))),
        Sdk (NewTextRecognizer (Model ''reg'') (Context (Device ''cpu'' 0)))]
   \<and> filter is_imwrite (trace (snd (main (demo_env [] 2) demo_argv 0))) =
       [Imwrite ''output_ocr.png'' \<lparr>data = Some 11\<rparr>]"
    by (simp add: o demo_imread demo_final_two demo_draw) (simp add: demo_argv_def)
  show ?thesis
    by (rule conjI [OF 1 2])
qed

text \<open>
  C10. The vertices given to \<open>polylines\<close> are the coordinates with the fraction dropped
  (truncated toward zero), for every coordinate whose truncated value an \<open>int\<close> holds.
  This is not rounding to the nearest integer: 2.75 becomes 2 and -2.75 becomes -2, where
  rounding gives 3 and -3.
\<close>

theorem cast_truncates:
  fixes env :: "('w, 'px) env"
  assumes "\<forall>pt\<in>set pts. int_representable (pt_x pt) \<and> int_representable (pt_y pt)"
  shows "fst (points_loop env pts [] s) =
           map (\<lambda>pt. CvPoint (truncate_toward_zero (the (finite_value (pt_x pt))))
                              (truncate_toward_zero (the (finite_value (pt_y pt))))) pts
       \<and> int_cast env (Finite 11 (- 2)) = 2 \<and> round_to_nearest (11 / 4) = 3
       \<and> int_cast env (Finite (- 11) (- 2)) = - 2 \<and> round_to_nearest (- 11 / 4) = - 3"
proof -
  have "fst (points_loop env pts [] s) =
           map (\<lambda>pt. CvPoint (truncate_toward_zero (the (finite_value (pt_x pt))))
                              (truncate_toward_zero (the (finite_value (pt_y pt))))) pts"
    using assms by (simp add: points_loop_run int_cast_is_truncation)
  moreover have "int_cast env (Finite 11 (- 2)) = 2" "int_cast env (Finite (- 11) (- 2)) = - 2"
    by (simp_all add: integral_part_def)
  moreover have "round_to_nearest (11 / 4) = 3" "round_to_nearest (- 11 / 4) = - 3"
    by (simp_all add: round_to_nearest_def)
  ultimately show ?thesis by simp
qed

theorem cast_truncates_witness:
  "fst (points_loop (demo_env [] 2) (bbox (demo_box 0)) [] \<lparr>world = 0, trace = []\<rparr>) =
     [CvPoint 2 (- 2), CvPoint 6 5]"
  using cast_truncates [of "bbox (demo_box 0)" "demo_env [] 2" "\<lparr>world = 0, trace = []\<rparr>"]
  by (simp add: demo_box_def int_representable_def truncate_toward_zero_def)

end
